theory Spec2Isabelle
  imports Main "HOL-Library.AList" "HOL-Library.Char_ord" "HOL-Library.List_Lexorder"
begin

section \<open>Expression chains of uproot/\_connect/to\_numba.py\<close>

subsection \<open>Python values, exceptions and function objects\<close>

text \<open>
  Exceptions are values. The payload of the name errors is the unbound name; the three
  \<open>ValueError\<close>s are the one of \<open>list.index\<close> (with the missing item), the one of
  \<open>iterate\<close> (with the display name it formats into its message; \<open>None\<close> is Python's
  \<open>None\<close>) and the one of \<open>collections.namedtuple\<close>.
\<close>

datatype pyerror =
    TypeError string
  | NameError string
  | UnboundLocalError string
  | AttributeError string
  | ValueError_not_in_list string
  | ValueError_illegal_field "string option"
  | ValueError_namedtuple string
  | IndexError
  | SyntaxError
  | UserError string
  | OutsideFragment

text \<open>Column arrays hold integers; a chunk handed to an evaluator is a tuple of arrays.\<close>

datatype pyval =
    IntV int
  | ArrV "int list"
  | NoneV
  | StrV string
  | TupleV "pyval list"

text \<open>
  A Python function object, as far as the module looks at it: the two attributes of
  \<open>__code__\<close>, \<open>__name__\<close> (absent for some callables), \<open>id(f)\<close>, and what a call
  does (a result or a raised exception).
\<close>

record pyfunction =
  co_argcount :: nat
  co_varnames :: "string list"
  fn_name :: "string option"
  fn_id :: nat
  call :: "pyval list \<Rightarrow> pyerror + pyval"

subsection \<open>Syntax trees as \<open>recurse\<close> sees them\<close>

datatype ctx = Load | Store | Del | Param

datatype cls =
    FunctionDef | Expr | Return | Assign | AugAssign | BinOp | Add | Sub | Mult
  | Constant | Break | OtherCls string

text \<open>
  \<open>Name\<close> carries its \<open>id\<close> and \<open>ctx\<close>; every other \<open>ast.AST\<close> node is its class
  and the values of its \<open>_fields\<close> in that order; a field is a node, a list, or a
  plain object.
\<close>

datatype node =
    Name string ctx
  | AST cls "node list"
  | NList "node list"
  | Obj pyval

type_synonym symbols = "string set \<times> string set"

text \<open>
  \<open>recurse\<close> of \<open>string2fcn\<close>: the pair is \<open>(insymbols, outsymbols)\<close>, the two sets the
  closure mutates.
\<close>

fun recurse :: "node \<Rightarrow> symbols \<Rightarrow> pyerror + symbols"
  and recurse_each :: "node list \<Rightarrow> symbols \<Rightarrow> pyerror + symbols" where
  "recurse (AST c flds) s =
     (if c = FunctionDef
      then Inl (TypeError ''function definitions are not allowed in a function parsed from a string'')
      else recurse_each flds s)"
| "recurse (Name i c) s =
     (case c of
        Load \<Rightarrow> (if i \<notin> snd s then Inr (insert i (fst s), snd s) else Inr s)
      | Store \<Rightarrow> Inr (fst s, insert i (snd s))
      | _ \<Rightarrow> Inr s)"
| "recurse (NList xs) s = recurse_each xs s"
| "recurse (Obj v) s = Inr s"
| "recurse_each [] s = Inr s"
| "recurse_each (x # xs) s =
     (case recurse x s of Inl e \<Rightarrow> Inl e | Inr s' \<Rightarrow> recurse_each xs s')"

text \<open>The rewrite of the last statement: a bare expression becomes a return of its value.\<close>

fun return_last :: "node list \<Rightarrow> node list" where
  "return_last [] = []"
| "return_last [AST c flds] = (if c = Expr then [AST Return flds] else [AST c flds])"
| "return_last [x] = [x]"
| "return_last (x # xs) = x # return_last xs"

text \<open>
  The interpreter the module runs on: \<open>ast_parse s\<close> is the body of \<open>ast.parse(s)\<close>
  (\<open>None\<close> when it raises \<open>SyntaxError\<close>), \<open>compile_fcn params body\<close> is
  \<open>makefcn(compile(module, ...), math.__dict__, "fcn")\<close> for the module
  \<open>def fcn(params): body\<close>, and \<open>namedtuple_check names\<close> is the exception
  \<open>collections.namedtuple("Arrays", names)\<close> raises, if any.
\<close>

record python =
  ast_parse :: "string \<Rightarrow> node list option"
  compile_fcn :: "string list \<Rightarrow> node list \<Rightarrow> pyerror + pyfunction"
  namedtuple_check :: "string option list \<Rightarrow> pyerror option"

definition string2fcn :: "python \<Rightarrow> string \<Rightarrow> pyerror + pyfunction" where
  "string2fcn py string =
     (case ast_parse py string of
        None \<Rightarrow> Inl SyntaxError
      | Some body \<Rightarrow>
          (case recurse (NList body) ({}, {}) of
             Inl e \<Rightarrow> Inl e
           | Inr s \<Rightarrow>
               if length body = 0 then Inl (TypeError ''string contains no expressions'')
               else compile_fcn py (sorted_list_of_set (fst s)) (return_last body)))"

subsection \<open>The chain: \<open>ChainSource\<close>, \<open>Define\<close>\<close>

text \<open>
  \<open>tree_iterate src branchnames\<close> is what \<open>self.tree.iterate(...)\<close> yields for the
  branches asked, with the entry range, step size, caches and read executor fixed in
  the source object: triples \<open>(entrystart, entrystop, arrays)\<close>. \<open>compilefcn\<close> is the
  attribute \<open>_compilefcn\<close> the constructor sets from its \<open>numba\<close> argument.
\<close>

record chainsource =
  tree_iterate :: "string list \<Rightarrow> (int \<times> int \<times> pyval list) list"
  aliases :: "string \<rightharpoonup> string"
  entryvar :: "string option"
  compilefcn :: "pyfunction \<Rightarrow> pyfunction"

text \<open>A \<open>Define\<close> object is its \<open>previous\<close>, \<open>fcn\<close> and \<open>requirements\<close> attributes.\<close>

datatype chainstep =
    ChainSource chainsource
  | Define chainstep "string \<rightharpoonup> pyfunction" "string \<rightharpoonup> string list"

text \<open>\<open>branchnames.index(x)\<close>; \<open>None\<close> is its \<open>ValueError\<close>.\<close>

fun index_of :: "'a list \<Rightarrow> 'a \<Rightarrow> nat option" where
  "index_of [] x = None"
| "index_of (y # ys) x = (if y = x then Some 0 else map_option Suc (index_of ys x))"

text \<open>The accumulator of one pass: \<open>branchnames\<close> and the set \<open>entryvars\<close>.\<close>

type_synonym accumulator = "string list \<times> unit set"

fun satisfy :: "chainstep \<Rightarrow> string \<Rightarrow> accumulator \<Rightarrow> accumulator" where
  "satisfy (ChainSource src) requirement acc =
     (if Some requirement = entryvar src then (fst acc, insert () (snd acc))
      else
        (let branchname = (case aliases src requirement of Some b \<Rightarrow> b | None \<Rightarrow> requirement)
         in case index_of (fst acc) branchname of
              Some index \<Rightarrow> acc
            | None \<Rightarrow> (fst acc @ [branchname], snd acc)))"
| "satisfy (Define previous fcn requirements) requirement acc =
     (case requirements requirement of
        Some reqs \<Rightarrow> fold (satisfy previous) reqs acc
      | None \<Rightarrow> satisfy previous requirement acc)"

text \<open>
  A loop whose body may raise: the results in order, or the first exception.
\<close>

fun first_error :: "(pyerror + 'a) list \<Rightarrow> pyerror + 'a list" where
  "first_error [] = Inr []"
| "first_error (Inl e # rs) = Inl e"
| "first_error (Inr x # rs) =
     (case first_error rs of Inl e \<Rightarrow> Inl e | Inr xs \<Rightarrow> Inr (x # xs))"

text \<open>\<open>lambda arrays: arrays[index]\<close>.\<close>

definition getitem_lambda :: "nat \<Rightarrow> pyfunction" where
  "getitem_lambda index =
     \<lparr>co_argcount = 1, co_varnames = [''arrays''], fn_name = Some ''<lambda>'', fn_id = 0,
      call = (\<lambda>args. case args of
                [TupleV arrays] \<Rightarrow>
                  if index < length arrays then Inr (arrays ! index) else Inl IndexError
              | [ArrV xs] \<Rightarrow>
                  if index < length xs then Inr (IntV (xs ! index)) else Inl IndexError
              | [_] \<Rightarrow> Inl (TypeError ''object is not subscriptable'')
              | _ \<Rightarrow> Inl (TypeError ''<lambda>() takes exactly one argument''))\<rparr>"

text \<open>
  The names bound at module level, and the local names of \<open>Define._argfcn\<close> when it
  builds \<open>env\<close>. Neither \<open>fcn\<close> nor \<open>_delayedraise\<close> is among them (nor a builtin), so
  reading one of them raises \<open>NameError\<close>. Had \<open>fcn\<close> been bound, \<open>Define._argfcn\<close> would
  go on to the fetchers of the previous step and then to \<open>self._compilefcn\<close>, an
  attribute only a \<open>ChainSource\<close> has.
\<close>

definition module_globals :: "string list" where
  "module_globals =
     [''ast'', ''keyword'', ''math'', ''sys'', ''namedtuple'', ''numpy'', ''ifinstalled'',
      ''parsable'', ''makefcn'', ''string2fcn'', ''ChainStep'', ''Define'', ''ChainSource'',
      ''TTreeMethods_numba'']"

definition define_argfcn_locals :: "string list" where
  "define_argfcn_locals = [''self'', ''requirement'', ''branchnames'', ''argstrs'', ''argfcns'']"

definition read_name :: "string list \<Rightarrow> string \<Rightarrow> pyerror option" where
  "read_name locals n =
     (if n \<in> set locals \<or> n \<in> set module_globals then None else Some (NameError n))"

fun argfcn :: "chainstep \<Rightarrow> string \<Rightarrow> string list \<Rightarrow> pyerror + pyfunction" where
  "argfcn (ChainSource src) requirement branchnames =
     (if Some requirement = entryvar src
      then Inr (compilefcn src (getitem_lambda (length branchnames)))
      else
        (let branchname = (case aliases src requirement of Some b \<Rightarrow> b | None \<Rightarrow> requirement)
         in case index_of branchnames branchname of
              None \<Rightarrow> Inl (ValueError_not_in_list branchname)
            | Some index \<Rightarrow> Inr (compilefcn src (getitem_lambda index))))"
| "argfcn (Define previous fcn requirements) requirement branchnames =
     (case requirements requirement of
        Some reqs \<Rightarrow>
          (case read_name define_argfcn_locals ''fcn'' of
             Some e \<Rightarrow> Inl e
           | None \<Rightarrow>
               (case first_error (map (\<lambda>req. argfcn previous req branchnames) reqs) of
                  Inl e \<Rightarrow> Inl e
                | Inr argfcns \<Rightarrow> Inl (AttributeError ''_compilefcn'')))
      | None \<Rightarrow> argfcn previous requirement branchnames)"

subsection \<open>\<open>ChainStep\<close>: from expressions to per-chunk evaluators\<close>

text \<open>\<open>self._compilefcn\<close>: set on a \<open>ChainSource\<close> instance, defined by no class.\<close>

fun compilefcn_of :: "chainstep \<Rightarrow> pyerror + (pyfunction \<Rightarrow> pyfunction)" where
  "compilefcn_of (ChainSource src) = Inr (compilefcn src)"
| "compilefcn_of (Define previous fcn requirements) = Inl (AttributeError ''_compilefcn'')"

fun source_of :: "chainstep \<Rightarrow> chainsource" where
  "source_of (ChainSource src) = src"
| "source_of (Define previous fcn requirements) = source_of previous"

datatype expr = Text string | Callable pyfunction

definition tofcn :: "python \<Rightarrow> chainstep \<Rightarrow> expr \<Rightarrow> pyerror + (pyfunction \<times> string list)" where
  "tofcn py self expr =
     (case (case expr of Text s \<Rightarrow> string2fcn py s | Callable f \<Rightarrow> Inr f) of
        Inl e \<Rightarrow> Inl e
      | Inr f \<Rightarrow>
          (case compilefcn_of self of
             Inl e \<Rightarrow> Inl e
           | Inr c \<Rightarrow> Inr (c f, co_varnames f)))"

text \<open>
  The argument \<open>exprs\<close>: one text or function; a dict (its items in order, a value that
  is neither text nor function being \<open>None\<close>); any other iterable; or an object that
  cannot be iterated. The tuples of \<open>_tofcns\<close> are
  \<open>(fcn, requirements, cacheid, dictname)\<close>.
\<close>

datatype exprs =
    Single expr
  | Mapping "(string \<times> expr option) list"
  | Collection "expr option list"
  | NotIterable

datatype cacheid = TextId string | ObjectId nat

type_synonym fcntuple = "pyfunction \<times> string list \<times> cacheid \<times> string option"

definition tofcn_text :: "python \<Rightarrow> chainstep \<Rightarrow> string \<Rightarrow> string \<Rightarrow> pyerror + fcntuple" where
  "tofcn_text py self s n =
     (case tofcn py self (Text s) of
        Inl e \<Rightarrow> Inl e
      | Inr (f, r) \<Rightarrow> Inr (f, r, TextId s, Some n))"

definition tofcn_callable ::
  "python \<Rightarrow> chainstep \<Rightarrow> pyfunction \<Rightarrow> string option \<Rightarrow> pyerror + fcntuple" where
  "tofcn_callable py self g n =
     (case tofcn py self (Callable g) of
        Inl e \<Rightarrow> Inl e
      | Inr (f, r) \<Rightarrow> Inr (f, r, ObjectId (fn_id g), n))"

definition exprs_error :: pyerror where
  "exprs_error = TypeError ''exprs must be a dict of strings or functions, iterable of strings or functions, a single string, or a single function''"

definition tofcns :: "python \<Rightarrow> chainstep \<Rightarrow> exprs \<Rightarrow> pyerror + fcntuple list" where
  "tofcns py self exprs =
     (case exprs of
        Single (Text s) \<Rightarrow> first_error [tofcn_text py self s s]
      | Single (Callable g) \<Rightarrow> first_error [tofcn_callable py self g (fn_name g)]
      | Mapping items \<Rightarrow>
          if \<forall>x \<in> set (map snd items). x \<noteq> None
          then first_error
                 (map (\<lambda>(n, x). case x of
                          Some (Text s) \<Rightarrow> tofcn_text py self s n
                        | Some (Callable g) \<Rightarrow> tofcn_callable py self g (Some n)
                        | None \<Rightarrow> Inl exprs_error) items)
          else first_error (map (\<lambda>(n, x). tofcn_text py self n n) items)
      | Collection xs \<Rightarrow>
          if \<forall>x \<in> set xs. x \<noteq> None
          then first_error
                 (map (\<lambda>x. case x of
                          Some (Text s) \<Rightarrow> tofcn_text py self s s
                        | Some (Callable g) \<Rightarrow> tofcn_callable py self g (fn_name g)
                        | None \<Rightarrow> Inl exprs_error) xs)
          else Inl exprs_error
      | NotIterable \<Rightarrow> Inl exprs_error)"

text \<open>\<open>def cfcn(arrays): return fcn(arg0(arrays), ..., argN(arrays))\<close>.\<close>

definition cfcn :: "pyfunction \<Rightarrow> pyfunction list \<Rightarrow> pyfunction" where
  "cfcn fcn argfcns =
     \<lparr>co_argcount = 1, co_varnames = [''arrays''], fn_name = Some ''cfcn'', fn_id = 0,
      call = (\<lambda>args. case args of
                [arrays] \<Rightarrow>
                  (case first_error (map (\<lambda>a. call a [arrays]) argfcns) of
                     Inl e \<Rightarrow> Inl e
                   | Inr vs \<Rightarrow> call fcn vs)
              | _ \<Rightarrow> Inl (TypeError ''cfcn() takes exactly one argument''))\<rparr>"

definition satisfy_all :: "chainstep \<Rightarrow> fcntuple list \<Rightarrow> accumulator" where
  "satisfy_all self fcns =
     fold (\<lambda>(fcn, requirements, cacheid, dictname) acc. fold (satisfy self) requirements acc)
       fcns ([], {})"

definition compilefcns ::
  "chainstep \<Rightarrow> fcntuple list \<Rightarrow> pyerror + (pyfunction list \<times> string list \<times> unit set)" where
  "compilefcns self fcns =
     (let (branchnames, entryvars) = satisfy_all self fcns
      in case first_error
                (map (\<lambda>(fcn, requirements, cacheid, dictname).
                        case first_error (map (\<lambda>r. argfcn self r branchnames) requirements) of
                          Inl e \<Rightarrow> Inl e
                        | Inr argfcns \<Rightarrow>
                            (case compilefcn_of self of
                               Inl e \<Rightarrow> Inl e
                             | Inr c \<Rightarrow> Inr (c (cfcn fcn argfcns)))) fcns) of
           Inl e \<Rightarrow> Inl e
         | Inr compiled \<Rightarrow> Inr (compiled, branchnames, entryvars))"

fun single_name :: "node list \<Rightarrow> bool" where
  "single_name [AST c [Name i cx]] = (c = Expr)"
| "single_name body = False"

definition isidentifier :: "python \<Rightarrow> string option \<Rightarrow> bool" where
  "isidentifier py dictname =
     (case dictname of
        None \<Rightarrow> False
      | Some s \<Rightarrow> (case ast_parse py s of None \<Rightarrow> False | Some body \<Rightarrow> single_name body))"

subsection \<open>\<open>ChainStep.iterate\<close>\<close>

datatype outputtype = OutDict | OutTuple | OutList | OutNamedtuple | OutCustom

datatype container =
    CDict | CTuple | CList | CNamedtuple "string option list" | CCustom

datatype outrecord =
    DictRec "(string option \<times> pyval) list"
  | TupleRec "pyval list"
  | ListRec "pyval list"
  | NamedtupleRec "string option list" "pyval list"
  | CustomRec "pyval list"

text \<open>
  What a consumer of the generator, and the source, can observe: a chunk is asked from
  the source, a record is yielded, an exception leaves the generator (and ends it).
\<close>

datatype event = Fetch | Yield outrecord | Raise pyerror

text \<open>A \<open>map\<close>-style executor: \<open>map(f, xs)\<close> gives the results of \<open>f\<close> in order.\<close>

datatype executor = Executor

definition container_of ::
  "python \<Rightarrow> outputtype \<Rightarrow> string option list \<Rightarrow> pyerror + container" where
  "container_of py outputtype dictnames =
     (if outputtype = OutNamedtuple
      then (case find (\<lambda>dictname. \<not> isidentifier py dictname) dictnames of
              Some dictname \<Rightarrow> Inl (ValueError_illegal_field dictname)
            | None \<Rightarrow>
                (case namedtuple_check py dictnames of
                   Some e \<Rightarrow> Inl e
                 | None \<Rightarrow> Inr (CNamedtuple dictnames)))
      else Inr (case outputtype of
                  OutDict \<Rightarrow> CDict | OutTuple \<Rightarrow> CTuple | OutList \<Rightarrow> CList
                | _ \<Rightarrow> CCustom))"

definition finish :: "container \<Rightarrow> string option list \<Rightarrow> pyval list \<Rightarrow> outrecord" where
  "finish c dictnames results =
     (case c of
        CDict \<Rightarrow> DictRec (fold (\<lambda>(k, v). AList.update k v) (zip dictnames results) [])
      | CTuple \<Rightarrow> TupleRec results
      | CList \<Rightarrow> ListRec results
      | CNamedtuple names \<Rightarrow> NamedtupleRec names results
      | CCustom \<Rightarrow> CustomRec results)"

definition arange :: "int \<Rightarrow> int \<Rightarrow> pyval" where
  "arange entrystart entrystop = ArrV [entrystart..entrystop - 1]"

definition source_iterate :: "chainsource \<Rightarrow> string list \<Rightarrow> bool \<Rightarrow> pyval list list" where
  "source_iterate src branchnames hasentryvar =
     map (\<lambda>(entrystart, entrystop, arrays).
            if hasentryvar then arrays @ [arange entrystart entrystop] else arrays)
       (tree_iterate src branchnames)"

text \<open>
  \<open>calculate(i)\<close>: the captured exception (\<open>sys.exc_info()\<close>) or \<open>None\<close>, and the list
  \<open>results\<close> it writes to.
\<close>

definition calculate ::
  "pyfunction list \<Rightarrow> pyval list \<Rightarrow> pyval list \<Rightarrow> nat \<Rightarrow> pyerror option \<times> pyval list" where
  "calculate compiled arrays results i =
     (case call (compiled ! i) [TupleV arrays] of
        Inl e \<Rightarrow> (Some e, results)
      | Inr out \<Rightarrow> (None, results[i := out]))"

text \<open>
  Modelled from the spec: \<open>uproot.tree._delayedraise\<close> is not in this file. It raises
  the captured exception it is given, the original one, and does nothing for \<open>None\<close>.
\<close>

definition tree_delayedraise :: "pyerror option \<Rightarrow> pyerror + unit" where
  "tree_delayedraise excinfo = (case excinfo of None \<Rightarrow> Inr () | Some e \<Rightarrow> Inl e)"

text \<open>\<open>for i in range(len(compiled)): uproot.tree._delayedraise(calculate(i))\<close>.\<close>

fun calculate_each ::
  "pyfunction list \<Rightarrow> pyval list \<Rightarrow> nat list \<Rightarrow> pyval list \<Rightarrow> pyerror + pyval list" where
  "calculate_each compiled arrays [] results = Inr results"
| "calculate_each compiled arrays (i # is) results =
     (case calculate compiled arrays results i of
        (excinfo, results') \<Rightarrow>
          (case tree_delayedraise excinfo of
             Inl e \<Rightarrow> Inl e
           | Inr u \<Rightarrow> calculate_each compiled arrays is results'))"

text \<open>\<open>calcexecutor.map(calculate, range(len(compiled)))\<close>.\<close>

fun calculate_map ::
  "pyfunction list \<Rightarrow> pyval list \<Rightarrow> nat list \<Rightarrow> pyval list \<Rightarrow> pyerror option list \<times> pyval list" where
  "calculate_map compiled arrays [] results = ([], results)"
| "calculate_map compiled arrays (i # is) results =
     (case calculate compiled arrays results i of
        (excinfo, results') \<Rightarrow>
          (case calculate_map compiled arrays is results' of
             (excinfos, results'') \<Rightarrow> (excinfo # excinfos, results'')))"

definition iterate_locals :: "string list" where
  "iterate_locals =
     [''self'', ''exprs'', ''outputtype'', ''calcexecutor'', ''uproot'', ''fcns'', ''dictnames'',
      ''dictname'', ''finish'', ''compiled'', ''branchnames'', ''entryvars'', ''excinfos'',
      ''arrays'', ''excinfo'', ''results'', ''calculate'', ''i'']"

text \<open>
  \<open>for excinfo in excinfos: _delayedraise(excinfo)\<close>, followed by the \<open>yield\<close>: the bare
  name is read once the loop has an element. (Were the name bound to the function of
  \<open>uproot.tree\<close>, the loop would raise the first captured exception.)
\<close>

definition deferred :: "pyerror option list \<Rightarrow> outrecord \<Rightarrow> pyerror + event list" where
  "deferred excinfos out =
     (if excinfos = [] then Inr [Yield out]
      else (case read_name iterate_locals ''_delayedraise'' of
              Some e \<Rightarrow> Inl e
            | None \<Rightarrow>
                (case first_error (map tree_delayedraise excinfos) of
                   Inl e \<Rightarrow> Inl e
                 | Inr us \<Rightarrow> Inr [Yield out])))"

text \<open>
  The loop over the chunks of the source and the code after it. \<open>excinfos\<close> is \<open>None\<close>
  until a chunk has been calculated.
\<close>

fun chunk_loop ::
  "(pyval list \<Rightarrow> outrecord) \<Rightarrow> pyfunction list \<Rightarrow> executor option \<Rightarrow> pyval list list \<Rightarrow>
   pyerror option list option \<Rightarrow> pyval list \<Rightarrow> event list" where
  "chunk_loop fin compiled calcexecutor [] excinfos results =
     (case excinfos of
        None \<Rightarrow> []
      | Some xs \<Rightarrow> (case deferred xs (fin results) of Inl e \<Rightarrow> [Raise e] | Inr evs \<Rightarrow> evs))"
| "chunk_loop fin compiled calcexecutor (arrays # rest) excinfos results =
     Fetch #
     (case (case excinfos of None \<Rightarrow> Inr [] | Some xs \<Rightarrow> deferred xs (fin results)) of
        Inl e \<Rightarrow> [Raise e]
      | Inr evs \<Rightarrow>
          evs @
          (let results0 = replicate (length compiled) NoneV
           in case calcexecutor of
                None \<Rightarrow>
                  (case calculate_each compiled arrays [0..<length compiled] results0 of
                     Inl e \<Rightarrow> [Raise e]
                   | Inr results' \<Rightarrow> chunk_loop fin compiled calcexecutor rest (Some []) results')
              | Some ex \<Rightarrow>
                  (case calculate_map compiled arrays [0..<length compiled] results0 of
                     (xs, results') \<Rightarrow>
                       chunk_loop fin compiled calcexecutor rest (Some xs) results')))"

definition iterate ::
  "python \<Rightarrow> chainstep \<Rightarrow> exprs \<Rightarrow> outputtype \<Rightarrow> executor option \<Rightarrow> event list" where
  "iterate py self exprs outputtype calcexecutor =
     (case tofcns py self exprs of
        Inl e \<Rightarrow> [Raise e]
      | Inr fcns \<Rightarrow>
          (let dictnames = map (\<lambda>(fcn, requirements, cacheid, dictname). dictname) fcns
           in case container_of py outputtype dictnames of
                Inl e \<Rightarrow> [Raise e]
              | Inr c \<Rightarrow>
                  (case compilefcns self fcns of
                     Inl e \<Rightarrow> [Raise e]
                   | Inr (compiled, branchnames, entryvars) \<Rightarrow>
                       chunk_loop (finish c dictnames) compiled calcexecutor
                         (source_iterate (source_of self) branchnames (card entryvars > 0))
                         None [])))"

subsection \<open>\<open>Define.__init__\<close>\<close>

definition kwlist :: "string list" where
  "kwlist =
     [''False'', ''None'', ''True'', ''and'', ''as'', ''assert'', ''async'', ''await'', ''break'',
      ''class'', ''continue'', ''def'', ''del'', ''elif'', ''else'', ''except'', ''finally'',
      ''for'', ''from'', ''global'', ''if'', ''import'', ''in'', ''is'', ''lambda'', ''nonlocal'',
      ''not'', ''or'', ''pass'', ''raise'', ''return'', ''try'', ''while'', ''with'', ''yield'']"

definition iskeyword :: "string \<Rightarrow> bool" where
  "iskeyword x \<longleftrightarrow> x \<in> set kwlist"

text \<open>
  The first argument is \<open>exprs\<close>, the second the keyword arguments \<open>more_exprs\<close>. While
  \<open>_tofcns\<close> runs, the object under construction has its \<open>previous\<close> and nothing else.
\<close>

definition Define_init ::
  "python \<Rightarrow> chainstep \<Rightarrow> exprs \<Rightarrow> (string \<times> expr option) list \<Rightarrow> pyerror + chainstep" where
  "Define_init py previous exprs more_exprs =
     (case exprs of
        Mapping items \<Rightarrow>
          (let exprs' = fold (\<lambda>(k, v). AList.update k v) more_exprs items
           in if \<exists>x \<in> set (map fst exprs'). \<not> isidentifier py (Some x) \<or> iskeyword x
              then Inl (TypeError ''all names in exprs must be identifiers (and strings!)'')
              else
                (case tofcns py (Define previous Map.empty Map.empty) (Mapping exprs') of
                   Inl e \<Rightarrow> Inl e
                 | Inr fcns \<Rightarrow>
                     Inr (fold (\<lambda>(fcn, requirements, cacheid, dictname) self.
                                  case (self, dictname) of
                                    (Define p f r, Some n) \<Rightarrow>
                                      Define p (f(n \<mapsto> fcn)) (r(n \<mapsto> requirements))
                                  | _ \<Rightarrow> self)
                            fcns (Define previous Map.empty Map.empty))))
      | _ \<Rightarrow> Inl (TypeError ''exprs must be a dict''))"

subsection \<open>A reference interpreter for straight-line arithmetic\<close>

text \<open>
  To run the functions \<open>string2fcn\<close> builds, a reference instance of \<open>python\<close>: the
  parser is a table of texts with their trees, the compiler gives a function that
  interprets assignments to one name, expression statements, \<open>return\<close>, names,
  constants and \<open>+\<close>, \<open>-\<close>, \<open>*\<close> on integers and integer arrays. Anything else is
  \<open>OutsideFragment\<close>, which is no Python exception. Inside a function a name that is a
  parameter or assigned anywhere in the body is local, and reading it before it is
  bound raises \<open>UnboundLocalError\<close>; other names are read from the globals \<open>g\<close>.
\<close>

definition arith :: "cls \<Rightarrow> (int \<Rightarrow> int \<Rightarrow> int) option" where
  "arith c =
     (if c = Add then Some (+) else if c = Sub then Some (-)
      else if c = Mult then Some (*) else None)"

fun binop :: "(int \<Rightarrow> int \<Rightarrow> int) \<Rightarrow> pyval \<Rightarrow> pyval \<Rightarrow> pyerror + pyval" where
  "binop f (IntV a) (IntV b) = Inr (IntV (f a b))"
| "binop f (ArrV xs) (IntV b) = Inr (ArrV (map (\<lambda>x. f x b) xs))"
| "binop f (IntV a) (ArrV ys) = Inr (ArrV (map (f a) ys))"
| "binop f (ArrV xs) (ArrV ys) =
     (if length xs = length ys then Inr (ArrV (map2 f xs ys)) else Inl OutsideFragment)"
| "binop f a b = Inl OutsideFragment"

fun eval_expr :: "(string \<Rightarrow> pyerror + pyval) \<Rightarrow> node \<Rightarrow> pyerror + pyval" where
  "eval_expr lk (Name i c) = (if c = Load then lk i else Inl OutsideFragment)"
| "eval_expr lk (AST c flds) =
     (if c = Constant then (case flds of Obj v # rest \<Rightarrow> Inr v | _ \<Rightarrow> Inl OutsideFragment)
      else if c = BinOp then
        (case flds of
           [l, AST opc [], r] \<Rightarrow>
             (case arith opc of
                None \<Rightarrow> Inl OutsideFragment
              | Some f \<Rightarrow>
                  (case eval_expr lk l of
                     Inl e \<Rightarrow> Inl e
                   | Inr a \<Rightarrow>
                       (case eval_expr lk r of Inl e \<Rightarrow> Inl e | Inr b \<Rightarrow> binop f a b)))
         | _ \<Rightarrow> Inl OutsideFragment)
      else Inl OutsideFragment)"
| "eval_expr lk n = Inl OutsideFragment"

definition local_lookup ::
  "string set \<Rightarrow> (string \<rightharpoonup> pyval) \<Rightarrow> (string \<rightharpoonup> pyval) \<Rightarrow> string \<Rightarrow> pyerror + pyval" where
  "local_lookup locals g env i =
     (if i \<in> locals
      then (case env i of Some v \<Rightarrow> Inr v | None \<Rightarrow> Inl (UnboundLocalError i))
      else (case g i of Some v \<Rightarrow> Inr v | None \<Rightarrow> Inl (NameError i)))"

definition global_lookup :: "(string \<rightharpoonup> pyval) \<Rightarrow> string \<Rightarrow> pyerror + pyval" where
  "global_lookup env i = (case env i of Some v \<Rightarrow> Inr v | None \<Rightarrow> Inl (NameError i))"

text \<open>The body of a called function: the returned value (\<open>None\<close> at the end of the body).\<close>

fun exec_body ::
  "string set \<Rightarrow> (string \<rightharpoonup> pyval) \<Rightarrow> (string \<rightharpoonup> pyval) \<Rightarrow> node list \<Rightarrow> pyerror + pyval" where
  "exec_body locals g env [] = Inr NoneV"
| "exec_body locals g env (AST c flds # rest) =
     (if c = Return then
        (case flds of
           [v] \<Rightarrow> eval_expr (local_lookup locals g env) v
         | _ \<Rightarrow> Inl OutsideFragment)
      else if c = Expr then
        (case flds of
           [v] \<Rightarrow>
             (case eval_expr (local_lookup locals g env) v of
                Inl e \<Rightarrow> Inl e
              | Inr x \<Rightarrow> exec_body locals g env rest)
         | _ \<Rightarrow> Inl OutsideFragment)
      else if c = Assign then
        (case flds of
           NList [Name t cx] # v # tc \<Rightarrow>
             (case eval_expr (local_lookup locals g env) v of
                Inl e \<Rightarrow> Inl e
              | Inr x \<Rightarrow> exec_body locals g (env(t \<mapsto> x)) rest)
         | _ \<Rightarrow> Inl OutsideFragment)
      else Inl OutsideFragment)"
| "exec_body locals g env (n # rest) = Inl OutsideFragment"

text \<open>
  The text evaluated directly, at module level, under bindings \<open>env\<close>: assignments bind
  in \<open>env\<close>, the value is that of the last statement, an expression.
\<close>

fun eval_text :: "(string \<rightharpoonup> pyval) \<Rightarrow> node list \<Rightarrow> pyerror + pyval" where
  "eval_text env [] = Inr NoneV"
| "eval_text env (AST c flds # rest) =
     (if c = Expr then
        (case flds of
           [v] \<Rightarrow>
             (case eval_expr (global_lookup env) v of
                Inl e \<Rightarrow> Inl e
              | Inr x \<Rightarrow> if rest = [] then Inr x else eval_text env rest)
         | _ \<Rightarrow> Inl OutsideFragment)
      else if c = Assign then
        (case flds of
           NList [Name t cx] # v # tc \<Rightarrow>
             (case eval_expr (global_lookup env) v of
                Inl e \<Rightarrow> Inl e
              | Inr x \<Rightarrow> eval_text (env(t \<mapsto> x)) rest)
         | _ \<Rightarrow> Inl OutsideFragment)
      else Inl OutsideFragment)"
| "eval_text env (n # rest) = Inl OutsideFragment"

text \<open>The names a body assigns, in the order of the tree.\<close>

fun stores :: "node \<Rightarrow> string list" and stores_each :: "node list \<Rightarrow> string list" where
  "stores (Name i c) = (if c = Store then [i] else [])"
| "stores (AST c flds) = stores_each flds"
| "stores (NList xs) = stores_each xs"
| "stores (Obj v) = []"
| "stores_each [] = []"
| "stores_each (x # xs) = stores x @ stores_each xs"

text \<open>
  \<open>co_varnames\<close> of a code object: the parameter names, then the other local names.
  The compiler rejects a \<open>break\<close> statement of the function body, which no loop
  encloses (\<open>SyntaxError: 'break' outside loop\<close>).
\<close>

definition ref_compile ::
  "(string \<rightharpoonup> pyval) \<Rightarrow> string list \<Rightarrow> node list \<Rightarrow> pyerror + pyfunction" where
  "ref_compile g params body =
     (if AST Break [] \<in> set body then Inl SyntaxError
      else
        Inr \<lparr>co_argcount = length params,
             co_varnames =
               params @ filter (\<lambda>n. n \<notin> set params) (rev (remdups (rev (stores_each body)))),
             fn_name = Some ''fcn'', fn_id = 0,
             call = (\<lambda>args.
                       if length args \<noteq> length params
                       then Inl (TypeError ''fcn() takes a different number of arguments'')
                       else exec_body (set params \<union> set (stores_each body)) g
                              (map_of (zip params args)) body)\<rparr>)"

definition ref_namedtuple_check :: "string option list \<Rightarrow> pyerror option" where
  "ref_namedtuple_check names =
     (if \<exists>n \<in> set names. (case n of Some (c # cs) \<Rightarrow> c = CHR ''_'' | _ \<Rightarrow> False)
      then Some (ValueError_namedtuple ''Field names cannot start with an underscore'')
      else if \<not> distinct names
      then Some (ValueError_namedtuple ''Encountered duplicate field name'')
      else None)"

definition ref_python :: "(string \<times> node list) list \<Rightarrow> python" where
  "ref_python table =
     \<lparr>ast_parse = map_of table, compile_fcn = ref_compile Map.empty,
      namedtuple_check = ref_namedtuple_check\<rparr>"

text \<open>
  A source of two chunks, entries \<open>[0, 100)\<close> and \<open>[100, 150)\<close>, with one array per
  branch asked, whose entry-index name is \<open>i\<close>.
\<close>

definition two_chunk_source :: chainsource where
  "two_chunk_source =
     \<lparr>tree_iterate = (\<lambda>branchnames.
         [(0, 100, map (\<lambda>b. ArrV (replicate 100 7)) branchnames),
          (100, 150, map (\<lambda>b. ArrV (replicate 50 7)) branchnames)]),
      aliases = Map.empty, entryvar = Some ''i'', compilefcn = (\<lambda>f. f)\<rparr>"

text \<open>
  A source of 25 entries in chunks of 10, every branch holding the entry numbers; no
  alias, no entry-index name.
\<close>

definition three_chunk_source :: chainsource where
  "three_chunk_source =
     \<lparr>tree_iterate = (\<lambda>branchnames.
         [(0, 10, map (\<lambda>b. ArrV [0..9]) branchnames),
          (10, 20, map (\<lambda>b. ArrV [10..19]) branchnames),
          (20, 25, map (\<lambda>b. ArrV [20..24]) branchnames)]),
      aliases = Map.empty, entryvar = None, compilefcn = (\<lambda>f. f)\<rparr>"

text \<open>
  \<open>def f(x): ...\<close>, a function of one column that raises on the chunk holding entry 10,
  the second chunk of that source, and returns the column otherwise.
\<close>

definition raises_on_second :: pyfunction where
  "raises_on_second =
     \<lparr>co_argcount = 1, co_varnames = [''x''], fn_name = Some ''f'', fn_id = 1,
      call = (\<lambda>args. case args of
                [ArrV xs] \<Rightarrow> if 10 \<in> set xs then Inl (UserError ''boom'') else Inr (ArrV xs)
              | _ \<Rightarrow> Inl (TypeError ''f() takes one array''))\<rparr>"

text \<open>The trees of the texts used below, as \<open>ast.dump(ast.parse(text))\<close> prints them.\<close>

definition num :: "int \<Rightarrow> node" where
  "num n = AST Constant [Obj (IntV n), Obj NoneV]"

definition texts :: "(string \<times> node list) list" where
  "texts =
     [('''', []),
      (''x'', [AST Expr [Name ''x'' Load]]),
      (''r'', [AST Expr [Name ''r'' Load]]),
      (''c'', [AST Expr [Name ''c'' Load]]),
      (''y'', [AST Expr [Name ''y'' Load]]),
      (''x * 2'', [AST Expr [AST BinOp [Name ''x'' Load, AST Mult [], num 2]]]),
      (''x+1'', [AST Expr [AST BinOp [Name ''x'' Load, AST Add [], num 1]]]),
      (''a + b'', [AST Expr [AST BinOp [Name ''a'' Load, AST Add [], Name ''b'' Load]]]),
      (''x = 2\<newline>x + 1'',
        [AST Assign [NList [Name ''x'' Store], num 2, Obj NoneV],
         AST Expr [AST BinOp [Name ''x'' Load, AST Add [], num 1]]]),
      (''def f(): pass'',
        [AST FunctionDef
           [Obj (StrV ''f''),
            AST (OtherCls ''arguments'')
              [NList [], NList [], Obj NoneV, NList [], NList [], Obj NoneV, NList []],
            NList [AST (OtherCls ''Pass'') []], NList [], Obj NoneV, Obj NoneV]]),
      (''break'', [AST Break []]),
      (''x = x + 1\<newline>x'',
        [AST Assign [NList [Name ''x'' Store],
           AST BinOp [Name ''x'' Load, AST Add [], num 1], Obj NoneV],
         AST Expr [Name ''x'' Load]])]"

text \<open>
  \<open>def f(a): t = a * 2; return t\<close>: one parameter and one local variable, so
  \<open>f.__code__.co_varnames\<close> is \<open>('a', 't')\<close>.
\<close>

definition with_local :: pyfunction where
  "with_local =
     \<lparr>co_argcount = 1, co_varnames = [''a'', ''t''], fn_name = Some ''f'', fn_id = 2,
      call = (\<lambda>args. case args of
                [a] \<Rightarrow> binop (*) a (IntV 2)
              | _ \<Rightarrow> Inl (TypeError ''f() takes 1 positional argument''))\<rparr>"

text \<open>The declared parameter names of a function: the first \<open>co_argcount\<close> local names.\<close>

definition parameters :: "pyfunction \<Rightarrow> string list" where
  "parameters f = take (co_argcount f) (co_varnames f)"

text \<open>A text evaluated directly under bindings, through the parser of \<open>py\<close>.\<close>

definition eval_string :: "python \<Rightarrow> (string \<rightharpoonup> pyval) \<Rightarrow> string \<Rightarrow> pyerror + pyval" where
  "eval_string py env s =
     (case ast_parse py s of None \<Rightarrow> Inl SyntaxError | Some body \<Rightarrow> eval_text env body)"




text \<open>
  A source of 25 entries in chunks of 10 whose branch \<open>c\<close> holds the entry numbers and
  whose other branches hold zeros; no alias, no entry-index name.
\<close>

definition column_source :: chainsource where
  "column_source =
     \<lparr>tree_iterate = (\<lambda>branchnames.
         [(0, 10, map (\<lambda>b. ArrV (if b = ''c'' then [0..9] else replicate 10 0)) branchnames),
          (10, 20, map (\<lambda>b. ArrV (if b = ''c'' then [10..19] else replicate 10 0)) branchnames),
          (20, 25, map (\<lambda>b. ArrV (if b = ''c'' then [20..24] else replicate 5 0)) branchnames)]),
      aliases = Map.empty, entryvar = None, compilefcn = (\<lambda>f. f)\<rparr>"

text \<open>
  An event without the display names of its record: a mapping becomes the list of its
  values, a named tuple the plain tuple.
\<close>

fun strip_names :: "event \<Rightarrow> event" where
  "strip_names (Yield (DictRec items)) = Yield (ListRec (map snd items))"
| "strip_names (Yield (NamedtupleRec names vals)) = Yield (TupleRec vals)"
| "strip_names e = e"



section \<open>The entry-index column\<close>

lemma getitem_lambda_past_end:
  "call (getitem_lambda (length xs)) [TupleV (xs @ [v])] = Inr v"
  by (simp add: getitem_lambda_def)

text \<open>
  C6. When the requirement is the reserved entry-index name of the source, resolving it
  leaves the list of raw columns as it was and only adds to \<open>entryvars\<close> (so the flag
  \<open>len(entryvars) > 0\<close> handed to the source is set); its fetcher reads position
  \<open>len(branchnames)\<close>, just past the last real column; and for a chunk of the tree
  covering the entries \<open>[entrystart, entrystop)\<close>, with one array per branch asked, the
  source appends a fresh array and the fetcher reads it: the entries
  \<open>entrystart, ..., entrystop - 1\<close> in increasing order (for \<open>[100, 150)\<close>: 100 to 149).
  The compilation hook of the source is taken to preserve what a function computes.
\<close>

theorem entry_index_fetch:
  assumes ev: "entryvar src = Some name"
    and pres: "\<forall>f. call (compilefcn src f) = call f"
    and k: "k < length (tree_iterate src branchnames)"
    and chunk: "tree_iterate src branchnames ! k = (entrystart, entrystop, arrays)"
    and len: "length arrays = length branchnames"
  shows "satisfy (ChainSource src) name (branchnames, entryvars) = (branchnames, insert () entryvars)
       \<and> 0 < card (insert () entryvars)
       \<and> argfcn (ChainSource src) name branchnames
           = Inr (compilefcn src (getitem_lambda (length branchnames)))
       \<and> source_iterate src branchnames True ! k = arrays @ [arange entrystart entrystop]
       \<and> call (compilefcn src (getitem_lambda (length branchnames)))
             [TupleV (source_iterate src branchnames True ! k)]
           = Inr (ArrV [entrystart..entrystop - 1])
       \<and> sorted_wrt (<) [entrystart..entrystop - 1]
       \<and> set [entrystart..entrystop - 1] = {entrystart..<entrystop}"
proof -
  have resolve: "satisfy (ChainSource src) name (branchnames, entryvars)
      = (branchnames, insert () entryvars)"
    using ev by simp
  have flag: "0 < card (insert () entryvars)"
    by (simp add: card_gt_0_iff)
  have fetcher: "argfcn (ChainSource src) name branchnames
      = Inr (compilefcn src (getitem_lambda (length branchnames)))"
    using ev by simp
  have stream: "source_iterate src branchnames True ! k = arrays @ [arange entrystart entrystop]"
    using k chunk by (simp add: source_iterate_def)
  have "call (compilefcn src (getitem_lambda (length branchnames)))
          [TupleV (source_iterate src branchnames True ! k)]
        = call (getitem_lambda (length arrays)) [TupleV (arrays @ [arange entrystart entrystop])]"
    using pres stream len by simp
  also have "\<dots> = Inr (arange entrystart entrystop)"
    by (rule getitem_lambda_past_end)
  finally have fetched: "call (compilefcn src (getitem_lambda (length branchnames)))
          [TupleV (source_iterate src branchnames True ! k)]
        = Inr (ArrV [entrystart..entrystop - 1])"
    by (simp add: arange_def)
  have order: "sorted_wrt (<) [entrystart..entrystop - 1]"
    by simp
  have elems: "set [entrystart..entrystop - 1] = {entrystart..<entrystop}"
    by auto
  from resolve flag fetcher stream fetched order elems show ?thesis by blast
qed

theorem entry_index_fetch_witness:
  "satisfy (ChainSource two_chunk_source) ''i'' ([''x''], {}) = ([''x''], {()})
   \<and> (\<exists>f. argfcn (ChainSource two_chunk_source) ''i'' [''x''] = Inr f
        \<and> call f [TupleV (source_iterate two_chunk_source [''x''] True ! 1)]
            = Inr (ArrV [100..149]))
   \<and> sorted_wrt (<) [100..149::int] \<and> set [100..149::int] = {100..<150}"
proof -
  have src: "entryvar two_chunk_source = Some ''i''"
    "\<forall>f. call (compilefcn two_chunk_source f) = call f"
    "1 < length (tree_iterate two_chunk_source [''x''])"
    "tree_iterate two_chunk_source [''x''] ! 1 = (100, 150, [ArrV (replicate 50 7)])"
    "length [ArrV (replicate 50 7)] = length [''x'']"
    by (simp_all add: two_chunk_source_def)
  have e: "150 - 1 = (149::int)" by simp
  show ?thesis
    using entry_index_fetch [OF src, of "{}"] unfolding e by blast
qed

section \<open>The executor path of \<open>iterate\<close>\<close>

lemma delayedraise_unbound:
  "read_name iterate_locals ''_delayedraise'' = Some (NameError ''_delayedraise'')"
  by (simp add: read_name_def iterate_locals_def module_globals_def)

lemma deferred_nonempty:
  "excinfos \<noteq> [] \<Longrightarrow> deferred excinfos out = Inl (NameError ''_delayedraise'')"
  by (simp add: deferred_def delayedraise_unbound)

lemma length_calculate_map:
  "length (fst (calculate_map compiled arrays is results)) = length is"
proof (induction "is" arbitrary: results)
  case Nil
  show ?case by simp
next
  case (Cons i "is")
  obtain x r where c: "calculate compiled arrays results i = (x, r)"
    by (cases "calculate compiled arrays results i")
  obtain xs r' where m: "calculate_map compiled arrays is r = (xs, r')"
    by (cases "calculate_map compiled arrays is r")
  from Cons [of r] m have "length xs = length is" by simp
  then show ?case by (simp add: c m)
qed

lemma first_error_length:
  "first_error rs = Inr xs \<Longrightarrow> length xs = length rs"
  by (induction rs arbitrary: xs rule: first_error.induct) (auto split: sum.splits)

lemma compilefcns_length:
  "compilefcns self fcns = Inr (compiled, branchnames, entryvars) \<Longrightarrow> length compiled = length fcns"
  by (auto simp: compilefcns_def split: prod.splits sum.splits dest: first_error_length)

lemma chunk_loop_executor:
  assumes "compiled \<noteq> []" "chunks \<noteq> []"
  shows "chunk_loop fin compiled (Some ex) chunks None results
       = replicate (min 2 (length chunks)) Fetch @ [Raise (NameError ''_delayedraise'')]"
proof -
  obtain arrays rest where chunks: "chunks = arrays # rest"
    using assms(2) by (cases chunks) auto
  obtain xs res where cm:
    "calculate_map compiled arrays [0..<length compiled] (replicate (length compiled) NoneV) = (xs, res)"
    by (cases "calculate_map compiled arrays [0..<length compiled] (replicate (length compiled) NoneV)")
  have "length xs = length compiled"
    using length_calculate_map [of compiled arrays "[0..<length compiled]" "replicate (length compiled) NoneV"] cm
    by simp
  then have xs: "xs \<noteq> []" using assms(1) by auto
  have after: "chunk_loop fin compiled (Some ex) rest (Some xs) res
       = replicate (min 1 (length rest)) Fetch @ [Raise (NameError ''_delayedraise'')]"
    by (cases rest) (simp_all add: deferred_nonempty [OF xs])
  show ?thesis
    by (simp add: chunks cm after min_def numeral_2_eq_2)
qed

text \<open>
  C10, the counterexample. With an executor, one output and a source of three chunks,
  a call whose set-up fails raises the error of the set-up, not \<open>NameError\<close>: the
  \<open>ValueError\<close> for the field name \<open>x+1\<close> of a named tuple, and on a chain with a (built,
  empty) \<open>Define\<close> step the \<open>AttributeError\<close> of \<open>_tofcn\<close>.
\<close>

theorem executor_setup_error_comes_first:
  "iterate (ref_python texts) (ChainSource three_chunk_source) (Single (Text ''x+1''))
     OutNamedtuple (Some Executor)
   = [Raise (ValueError_illegal_field (Some ''x+1''))]
   \<and> iterate (ref_python texts) (Define (ChainSource three_chunk_source) Map.empty Map.empty)
       (Single (Text ''x'')) OutTuple (Some Executor)
     = [Raise (AttributeError ''_compilefcn'')]
   \<and> length (tree_iterate three_chunk_source [''x'']) = 3"
  by code_simp

text \<open>
  C10, amended. An \<open>iterate\<close> call with an executor whose set-up succeeds: the outputs
  (at least one) are normalised, their display names are accepted for the container,
  the requirements are resolved and the evaluators compiled; and whose source yields
  at least one chunk for the columns resolved. The generator raises \<open>NameError\<close> for
  \<open>_delayedraise\<close> at the first request, after one chunk was taken from the source (two
  when there is a second), whatever the evaluators do, and never yields a record.
\<close>

theorem executor_path_raises_NameError:
  assumes norm: "tofcns py self exprs = Inr fcns"
    and some: "fcns \<noteq> []"
    and cont: "container_of py outputtype
                 (map (\<lambda>(fcn, requirements, cacheid, dictname). dictname) fcns) = Inr c"
    and comp: "compilefcns self fcns = Inr (compiled, branchnames, entryvars)"
    and chunks: "tree_iterate (source_of self) branchnames \<noteq> []"
  shows "iterate py self exprs outputtype (Some ex)
       = replicate (min 2 (length (tree_iterate (source_of self) branchnames))) Fetch
         @ [Raise (NameError ''_delayedraise'')]
       \<and> (\<forall>r. Yield r \<notin> set (iterate py self exprs outputtype (Some ex)))"
proof -
  let ?chunks = "source_iterate (source_of self) branchnames (card entryvars > 0)"
  have len: "length ?chunks = length (tree_iterate (source_of self) branchnames)"
    by (simp add: source_iterate_def)
  then have ne: "?chunks \<noteq> []" using chunks by auto
  have "compiled \<noteq> []"
    using compilefcns_length [OF comp] some by auto
  from chunk_loop_executor [OF this ne]
  have tr: "iterate py self exprs outputtype (Some ex)
       = replicate (min 2 (length (tree_iterate (source_of self) branchnames))) Fetch
         @ [Raise (NameError ''_delayedraise'')]"
    by (simp add: iterate_def norm cont comp len)
  show ?thesis
    unfolding tr by (auto simp: tr)
qed

theorem executor_path_raises_NameError_witness:
  "iterate (ref_python texts) (ChainSource two_chunk_source) (Single (Text ''x * 2'')) OutDict
     (Some Executor)
   = [Fetch, Fetch, Raise (NameError ''_delayedraise'')]"
proof -
  obtain f where f: "string2fcn (ref_python texts) ''x * 2'' = Inr f" "co_varnames f = [''x'']"
    by (simp add: string2fcn_def ref_python_def texts_def ref_compile_def num_def)
  let ?fcns = "[(f, [''x''], TextId ''x * 2'', Some ''x * 2'')]"
  have norm: "tofcns (ref_python texts) (ChainSource two_chunk_source) (Single (Text ''x * 2''))
      = Inr ?fcns"
    by (simp add: tofcns_def tofcn_text_def tofcn_def f two_chunk_source_def)
  have cont: "container_of (ref_python texts) OutDict
      (map (\<lambda>(fcn, requirements, cacheid, dictname). dictname) ?fcns) = Inr CDict"
    by (simp add: container_of_def)
  have comp: "compilefcns (ChainSource two_chunk_source) ?fcns
      = Inr ([cfcn f [getitem_lambda 0]], [''x''], {})"
    by (simp add: compilefcns_def satisfy_all_def two_chunk_source_def)
  have chunks: "tree_iterate (source_of (ChainSource two_chunk_source)) [''x''] \<noteq> []"
    by (simp add: two_chunk_source_def)
  have two: "length (tree_iterate (source_of (ChainSource two_chunk_source)) [''x'']) = 2"
    by (simp add: two_chunk_source_def)
  have some: "?fcns \<noteq> []" by simp
  show ?thesis
    using executor_path_raises_NameError [OF norm some cont comp chunks, of Executor]
    unfolding two by (simp add: numeral_2_eq_2)
qed

text \<open>
  C2. With three chunks and an evaluator that fails on the second, an \<open>iterate\<close> call
  that is given an executor takes two chunks from the source and raises \<open>NameError\<close>:
  the record of the first chunk is not yielded and the evaluator's own exception never
  reaches the caller. The same call without an executor yields the record of the first
  chunk and then raises the evaluator's exception, the third chunk never being asked.
\<close>

theorem executor_loses_evaluation_error:
  "iterate (ref_python texts) (ChainSource three_chunk_source)
     (Single (Callable raises_on_second)) OutTuple (Some Executor)
   = [Fetch, Fetch, Raise (NameError ''_delayedraise'')]
   \<and> iterate (ref_python texts) (ChainSource three_chunk_source)
       (Single (Callable raises_on_second)) OutTuple None
     = [Fetch, Fetch, Yield (TupleRec [ArrV [0..9]]), Raise (UserError ''boom'')]"
  by code_simp

section \<open>Requirement lists\<close>

lemma tofcn_requirements:
  "tofcn py (ChainSource src) (Callable f) = Inr (compilefcn src f, co_varnames f)"
  by (simp add: tofcn_def)

lemma tofcn_parameters_when_no_locals:
  "co_argcount f = length (co_varnames f) \<Longrightarrow>
   map_sum id snd (tofcn py (ChainSource src) (Callable f)) = Inr (parameters f)"
  by (simp add: tofcn_def parameters_def)

text \<open>
  C3. The requirement list \<open>_tofcn\<close> returns is \<open>co_varnames\<close>, the parameters followed by
  the local variables. For \<open>def f(a): t = a * 2; return t\<close> it is \<open>a, t\<close> while the only
  declared parameter is \<open>a\<close>; for the text \<open>x = 2; x + 1\<close> it is \<open>x\<close>, the assignment
  target, while the function built takes no parameter. Iterating over the function
  asks the source for a column \<open>t\<close> too and calls \<open>f\<close> with two arguments.
\<close>

theorem requirements_include_locals:
  "map_sum id snd (tofcn (ref_python texts) (ChainSource three_chunk_source) (Callable with_local))
     = Inr [''a'', ''t'']
   \<and> parameters with_local = [''a'']
   \<and> map_sum id snd
       (tofcn (ref_python texts) (ChainSource three_chunk_source) (Text ''x = 2\<newline>x + 1''))
     = Inr [''x'']
   \<and> map_sum id parameters (string2fcn (ref_python texts) ''x = 2\<newline>x + 1'') = Inr []
   \<and> iterate (ref_python texts) (ChainSource three_chunk_source) (Single (Callable with_local))
       OutTuple None
     = [Fetch, Raise (TypeError ''f() takes 1 positional argument'')]"
  by code_simp

section \<open>Functions from text\<close>

text \<open>
  C5. \<open>string2fcn("a + b")\<close> takes \<open>a, b\<close> and gives 5 at 2 and 3, as the text does;
  \<open>string2fcn("x = 2\nx + 1")\<close> takes nothing and returns 3. For the text
  \<open>x = x + 1\<close> followed by \<open>x\<close>, whose free variable is \<open>x\<close> and whose value under
  \<open>x = 5\<close> is 6, the function built takes no parameter (the walk meets the target of the
  assignment before its right-hand side), and calling it raises \<open>UnboundLocalError\<close>.
\<close>

theorem string2fcn_misses_read_before_assignment:
  "map_sum id (\<lambda>f. (parameters f, call f [IntV 2, IntV 3])) (string2fcn (ref_python texts) ''a + b'')
     = Inr ([''a'', ''b''], Inr (IntV 5))
   \<and> eval_string (ref_python texts) [''a'' \<mapsto> IntV 2, ''b'' \<mapsto> IntV 3] ''a + b'' = Inr (IntV 5)
   \<and> map_sum id (\<lambda>f. (parameters f, call f [])) (string2fcn (ref_python texts) ''x = 2\<newline>x + 1'')
     = Inr ([], Inr (IntV 3))
   \<and> eval_string (ref_python texts) [''x'' \<mapsto> IntV 5] ''x = x + 1\<newline>x'' = Inr (IntV 6)
   \<and> map_sum id (\<lambda>f. (parameters f, call f []))
       (string2fcn (ref_python texts) ''x = x + 1\<newline>x'')
     = Inr ([], Inl (UnboundLocalError ''x''))"
  by code_simp

section \<open>\<open>Define\<close> steps\<close>

lemma define_satisfy_own_name:
  "requirements r = Some reqs \<Longrightarrow>
   satisfy (Define previous fcn requirements) r acc = fold (satisfy previous) reqs acc"
  by simp

lemma define_satisfy_other_name:
  "requirements r = None \<Longrightarrow>
   satisfy (Define previous fcn requirements) r acc = satisfy previous r acc"
  by simp

lemma define_argfcn_own_name:
  "requirements r = Some reqs \<Longrightarrow>
   argfcn (Define previous fcn requirements) r branchnames = Inl (NameError ''fcn'')"
  by (simp add: read_name_def define_argfcn_locals_def module_globals_def)

lemma define_argfcn_other_name:
  "requirements r = None \<Longrightarrow>
   argfcn (Define previous fcn requirements) r branchnames = argfcn previous r branchnames"
  by simp

text \<open>
  C4. Building the \<open>Define\<close> step that registers \<open>y\<close> as \<open>"x * 2"\<close> over a source raises
  \<open>AttributeError\<close>: \<open>_tofcn\<close> reads \<open>self._compilefcn\<close>, which a \<open>Define\<close> object does not
  have. The same holds when \<open>y\<close> is passed as a keyword argument.
\<close>

theorem define_init_raises:
  "map_sum id (\<lambda>step. ())
     (Define_init (ref_python texts) (ChainSource three_chunk_source)
        (Mapping [(''y'', Some (Text ''x * 2''))]) [])
   = Inl (AttributeError ''_compilefcn'')
   \<and> map_sum id (\<lambda>step. ())
       (Define_init (ref_python texts) (ChainSource three_chunk_source)
          (Mapping []) [(''y'', Some (Text ''x * 2''))])
     = Inl (AttributeError ''_compilefcn'')"
  by code_simp

theorem define_init_raises_witness:
  "isl (Define_init (ref_python texts) (ChainSource three_chunk_source)
     (Mapping [(''y'', Some (Text ''x * 2''))]) [])"
  using define_init_raises
  by (cases "Define_init (ref_python texts) (ChainSource three_chunk_source)
     (Mapping [(''y'', Some (Text ''x * 2''))]) []") simp_all

section \<open>The errors of \<open>string2fcn\<close>\<close>





section \<open>Named-tuple output\<close>










section \<open>Aliases\<close>

lemma calculate_cong:
  "call (cs1 ! i) = call (cs2 ! i) \<Longrightarrow> calculate cs1 arrays results i = calculate cs2 arrays results i"
  by (simp add: calculate_def)

lemma calculate_each_cong:
  "\<forall>i \<in> set is. call (cs1 ! i) = call (cs2 ! i) \<Longrightarrow>
   calculate_each cs1 arrays is results = calculate_each cs2 arrays is results"
proof (induction "is" arbitrary: results)
  case Nil
  show ?case by simp
next
  case (Cons i "is")
  have here: "calculate cs1 arrays results i = calculate cs2 arrays results i"
    by (rule calculate_cong) (use Cons.prems in simp)
  have rest: "calculate_each cs1 arrays is r = calculate_each cs2 arrays is r" for r
    by (rule Cons.IH) (use Cons.prems in simp)
  show ?case by (simp add: here rest split: prod.splits sum.splits)
qed

lemma calculate_map_cong:
  "\<forall>i \<in> set is. call (cs1 ! i) = call (cs2 ! i) \<Longrightarrow>
   calculate_map cs1 arrays is results = calculate_map cs2 arrays is results"
proof (induction "is" arbitrary: results)
  case Nil
  show ?case by simp
next
  case (Cons i "is")
  have here: "calculate cs1 arrays results i = calculate cs2 arrays results i"
    by (rule calculate_cong) (use Cons.prems in simp)
  have rest: "calculate_map cs1 arrays is r = calculate_map cs2 arrays is r" for r
    by (rule Cons.IH) (use Cons.prems in simp)
  show ?case by (simp add: here rest split: prod.splits)
qed

lemma deferred_map:
  assumes "g (Yield out1) = g (Yield out2)"
  shows "map_sum id (map g) (deferred xs out1) = map_sum id (map g) (deferred xs out2)"
  using assms by (simp add: deferred_def split: option.splits sum.splits)

text \<open>
  The events of the loop seen through \<open>g\<close> depend on the evaluators only through what
  their calls return, and on the container only through \<open>g\<close> of the records.
\<close>

lemma chunk_loop_map:
  assumes fin: "\<forall>vals. g (Yield (fin1 vals)) = g (Yield (fin2 vals))"
    and len: "length cs1 = length cs2"
    and calls: "\<forall>i < length cs1. call (cs1 ! i) = call (cs2 ! i)"
  shows "map g (chunk_loop fin1 cs1 ex chunks excinfos results)
       = map g (chunk_loop fin2 cs2 ex chunks excinfos results)"
proof (induction chunks arbitrary: excinfos results)
  case Nil
  show ?case
  proof (cases excinfos)
    case None
    then show ?thesis by simp
  next
    case (Some xs)
    from fin have "g (Yield (fin1 results)) = g (Yield (fin2 results))" by simp
    from deferred_map [OF this, of xs] show ?thesis
      using Some by (cases "deferred xs (fin1 results)"; cases "deferred xs (fin2 results)") simp_all
  qed
next
  case (Cons arrays rest)
  let ?is = "[0..<length cs1]"
  have idx: "\<forall>i \<in> set ?is. call (cs1 ! i) = call (cs2 ! i)"
    using calls by simp
  have each: "calculate_each cs1 arrays ?is r = calculate_each cs2 arrays ?is r" for r
    by (rule calculate_each_cong [OF idx])
  have mp: "calculate_map cs1 arrays ?is r = calculate_map cs2 arrays ?is r" for r
    by (rule calculate_map_cong [OF idx])
  let ?d1 = "case excinfos of None \<Rightarrow> Inr [] | Some xs \<Rightarrow> deferred xs (fin1 results)"
  let ?d2 = "case excinfos of None \<Rightarrow> Inr [] | Some xs \<Rightarrow> deferred xs (fin2 results)"
  have d: "map_sum id (map g) ?d1 = map_sum id (map g) ?d2"
  proof (cases excinfos)
    case None
    then show ?thesis by simp
  next
    case (Some xs)
    from fin have "g (Yield (fin1 results)) = g (Yield (fin2 results))" by simp
    from deferred_map [OF this, of xs] show ?thesis using Some by simp
  qed
  show ?case
  proof (cases ?d1)
    case (Inl e)
    with d have "?d2 = Inl e" by (cases ?d2) simp_all
    with Inl show ?thesis by simp
  next
    case (Inr evs1)
    with d obtain evs2 where evs2: "?d2 = Inr evs2" "map g evs1 = map g evs2"
      by (cases ?d2) simp_all
    show ?thesis
    proof (cases ex)
      case None
      show ?thesis
        using Inr evs2 None len each [of "replicate (length cs2) NoneV"] Cons.IH
        by (simp add: Let_def split: sum.splits)
    next
      case (Some e)
      show ?thesis
        using Inr evs2 Some len mp [of "replicate (length cs2) NoneV"] Cons.IH
        by (simp add: Let_def split: prod.splits)
    qed
  qed
qed

lemma cfcn_call_cong:
  assumes "call f1 = call f2"
  shows "call (cfcn f1 gs) = call (cfcn f2 gs)"
proof (rule ext)
  fix args
  show "call (cfcn f1 gs) args = call (cfcn f2 gs) args"
    using assms by (simp add: cfcn_def split: list.splits sum.splits)
qed

lemma dict_values_one:
  "map snd (fold (\<lambda>(k, v). AList.update k v) (zip [k] results) []) = take 1 results"
  by (cases results) simp_all

text \<open>
  C7, the counterexample. With the default output, a mapping, the records of the run
  that asks for \<open>r\<close> under the alias \<open>r \<rightarrow> c\<close> have the key \<open>r\<close>, those of the run that asks
  for \<open>c\<close> have the key \<open>c\<close>: the two record sequences differ.
\<close>

theorem alias_changes_display_name:
  "iterate (ref_python texts) (ChainSource (column_source\<lparr>aliases := [''r'' \<mapsto> ''c'']\<rparr>))
     (Single (Text ''r'')) OutDict None
   \<noteq> iterate (ref_python texts) (ChainSource column_source) (Single (Text ''c'')) OutDict None"
  by code_simp

text \<open>
  C7, amended. Let \<open>r\<close> and \<open>c\<close> be texts whose functions take the one requirement \<open>r\<close>,
  respectively \<open>c\<close>, and compute the same (as \<open>fcn(r): return r\<close> and \<open>fcn(c): return c\<close>
  do), neither being the entry-index name, over a source without aliases whose
  compilation hook preserves calls. Iterating with the alias \<open>r \<rightarrow> c\<close> and output \<open>r\<close>
  gives the same fetches, the same values chunk by chunk and the same errors as
  iterating without alias and output \<open>c\<close>; the records are identical for tuple, list and
  positional containers, and differ only in the display name (\<open>r\<close> against \<open>c\<close>) for a
  mapping or a named tuple (both names being accepted as field names).
\<close>

theorem alias_same_values:
  assumes noalias: "aliases src = Map.empty"
    and pres: "\<forall>f. call (compilefcn src f) = call f"
    and noentry: "entryvar src \<noteq> Some r" "entryvar src \<noteq> Some c"
    and fr: "string2fcn py r = Inr fr" "co_varnames fr = [r]"
    and fc: "string2fcn py c = Inr fc" "co_varnames fc = [c]"
    and same: "call fr = call fc"
    and fields: "outputtype = OutNamedtuple \<longrightarrow>
                   isidentifier py (Some r) \<and> isidentifier py (Some c)
                   \<and> namedtuple_check py [Some r] = None \<and> namedtuple_check py [Some c] = None"
  shows "map strip_names
           (iterate py (ChainSource (src\<lparr>aliases := [r \<mapsto> c]\<rparr>)) (Single (Text r)) outputtype ex)
         = map strip_names (iterate py (ChainSource src) (Single (Text c)) outputtype ex)
       \<and> (outputtype \<noteq> OutDict \<and> outputtype \<noteq> OutNamedtuple \<longrightarrow>
            iterate py (ChainSource (src\<lparr>aliases := [r \<mapsto> c]\<rparr>)) (Single (Text r)) outputtype ex
            = iterate py (ChainSource src) (Single (Text c)) outputtype ex)"
proof -
  let ?src1 = "src\<lparr>aliases := [r \<mapsto> c]\<rparr>"
  let ?G = "compilefcn src (getitem_lambda 0)"
  let ?c1 = "[compilefcn src (cfcn (compilefcn src fr) [?G])]"
  let ?c2 = "[compilefcn src (cfcn (compilefcn src fc) [?G])]"
  let ?chunks = "source_iterate src [c] False"
  have n1: "tofcns py (ChainSource ?src1) (Single (Text r))
      = Inr [(compilefcn src fr, [r], TextId r, Some r)]"
    by (simp add: tofcns_def tofcn_text_def tofcn_def fr)
  have n2: "tofcns py (ChainSource src) (Single (Text c))
      = Inr [(compilefcn src fc, [c], TextId c, Some c)]"
    by (simp add: tofcns_def tofcn_text_def tofcn_def fc)
  have k1: "compilefcns (ChainSource ?src1) [(compilefcn src fr, [r], TextId r, Some r)]
      = Inr (?c1, [c], {})"
    using noentry by (simp add: compilefcns_def satisfy_all_def)
  have k2: "compilefcns (ChainSource src) [(compilefcn src fc, [c], TextId c, Some c)]
      = Inr (?c2, [c], {})"
    using noentry noalias by (simp add: compilefcns_def satisfy_all_def)
  have chunks: "source_iterate ?src1 [c] False = ?chunks"
    by (simp add: source_iterate_def)
  have calls: "\<forall>i < length ?c1. call (?c1 ! i) = call (?c2 ! i)"
    using pres same cfcn_call_cong [of "compilefcn src fr" "compilefcn src fc" "[?G]"] by simp
  have loop: "map g (chunk_loop fin1 ?c1 ex ?chunks None [])
      = map g (chunk_loop fin2 ?c2 ex ?chunks None [])"
    if "\<forall>vals. g (Yield (fin1 vals)) = g (Yield (fin2 vals))" for g fin1 fin2
    using chunk_loop_map [OF that _ calls] by simp
  have it1: "iterate py (ChainSource ?src1) (Single (Text r)) ot ex
      = (case container_of py ot [Some r] of
           Inl e \<Rightarrow> [Raise e]
         | Inr k \<Rightarrow> chunk_loop (finish k [Some r]) ?c1 ex ?chunks None [])" for ot
    by (simp add: iterate_def n1 k1 chunks split: sum.splits)
  have it2: "iterate py (ChainSource src) (Single (Text c)) ot ex
      = (case container_of py ot [Some c] of
           Inl e \<Rightarrow> [Raise e]
         | Inr k \<Rightarrow> chunk_loop (finish k [Some c]) ?c2 ex ?chunks None [])" for ot
    by (simp add: iterate_def n2 k2 split: sum.splits)
  show ?thesis
  proof (cases outputtype)
    case OutDict
    have "map strip_names (chunk_loop (finish CDict [Some r]) ?c1 ex ?chunks None [])
        = map strip_names (chunk_loop (finish CDict [Some c]) ?c2 ex ?chunks None [])"
      by (rule loop) (simp add: finish_def dict_values_one)
    with OutDict show ?thesis by (simp add: it1 it2 container_of_def)
  next
    case OutTuple
    have "map id (chunk_loop (finish CTuple [Some r]) ?c1 ex ?chunks None [])
        = map id (chunk_loop (finish CTuple [Some c]) ?c2 ex ?chunks None [])"
      by (rule loop) (simp add: finish_def)
    with OutTuple show ?thesis by (simp add: it1 it2 container_of_def)
  next
    case OutList
    have "map id (chunk_loop (finish CList [Some r]) ?c1 ex ?chunks None [])
        = map id (chunk_loop (finish CList [Some c]) ?c2 ex ?chunks None [])"
      by (rule loop) (simp add: finish_def)
    with OutList show ?thesis by (simp add: it1 it2 container_of_def)
  next
    case OutCustom
    have "map id (chunk_loop (finish CCustom [Some r]) ?c1 ex ?chunks None [])
        = map id (chunk_loop (finish CCustom [Some c]) ?c2 ex ?chunks None [])"
      by (rule loop) (simp add: finish_def)
    with OutCustom show ?thesis by (simp add: it1 it2 container_of_def)
  next
    case OutNamedtuple
    have "map strip_names
            (chunk_loop (finish (CNamedtuple [Some r]) [Some r]) ?c1 ex ?chunks None [])
        = map strip_names
            (chunk_loop (finish (CNamedtuple [Some c]) [Some c]) ?c2 ex ?chunks None [])"
      by (rule loop) (simp add: finish_def)
    with OutNamedtuple fields show ?thesis by (simp add: it1 it2 container_of_def)
  qed
qed

theorem alias_same_values_witness:
  "map strip_names
     (iterate (ref_python texts) (ChainSource (column_source\<lparr>aliases := [''r'' \<mapsto> ''c'']\<rparr>))
        (Single (Text ''r'')) OutDict None)
   = map strip_names
       (iterate (ref_python texts) (ChainSource column_source) (Single (Text ''c'')) OutDict None)
   \<and> iterate (ref_python texts) (ChainSource (column_source\<lparr>aliases := [''r'' \<mapsto> ''c'']\<rparr>))
        (Single (Text ''r'')) OutTuple None
     = iterate (ref_python texts) (ChainSource column_source) (Single (Text ''c'')) OutTuple None"
proof -
  let ?py = "ref_python texts"
  define fr where "fr = projr (string2fcn ?py ''r'')"
  define fc where "fc = projr (string2fcn ?py ''c'')"
  have fr: "string2fcn ?py ''r'' = Inr fr" "co_varnames fr = [''r'']"
    by (simp_all add: fr_def string2fcn_def ref_python_def texts_def ref_compile_def)
  have fc: "string2fcn ?py ''c'' = Inr fc" "co_varnames fc = [''c'']"
    by (simp_all add: fc_def string2fcn_def ref_python_def texts_def ref_compile_def)
  have call_fr: "call fr args
      = (case args of [v] \<Rightarrow> Inr v
         | _ \<Rightarrow> Inl (TypeError ''fcn() takes a different number of arguments''))" for args
  proof (cases args)
    case Nil
    then show ?thesis
      by (simp add: fr_def string2fcn_def ref_python_def texts_def ref_compile_def)
  next
    case (Cons v rest)
    then show ?thesis
      by (cases rest)
        (simp_all add: fr_def string2fcn_def ref_python_def texts_def ref_compile_def
          local_lookup_def)
  qed
  have call_fc: "call fc args
      = (case args of [v] \<Rightarrow> Inr v
         | _ \<Rightarrow> Inl (TypeError ''fcn() takes a different number of arguments''))" for args
  proof (cases args)
    case Nil
    then show ?thesis
      by (simp add: fc_def string2fcn_def ref_python_def texts_def ref_compile_def)
  next
    case (Cons v rest)
    then show ?thesis
      by (cases rest)
        (simp_all add: fc_def string2fcn_def ref_python_def texts_def ref_compile_def
          local_lookup_def)
  qed
  have same: "call fr = call fc"
    by (rule ext) (simp add: call_fr call_fc)
  have src: "aliases column_source = Map.empty"
    "\<forall>f. call (compilefcn column_source f) = call f"
    "entryvar column_source \<noteq> Some ''r''" "entryvar column_source \<noteq> Some ''c''"
    by (simp_all add: column_source_def)
  have d: "OutDict = OutNamedtuple \<longrightarrow>
      isidentifier ?py (Some ''r'') \<and> isidentifier ?py (Some ''c'')
      \<and> namedtuple_check ?py [Some ''r''] = None \<and> namedtuple_check ?py [Some ''c''] = None"
    by simp
  have t: "OutTuple = OutNamedtuple \<longrightarrow>
      isidentifier ?py (Some ''r'') \<and> isidentifier ?py (Some ''c'')
      \<and> namedtuple_check ?py [Some ''r''] = None \<and> namedtuple_check ?py [Some ''c''] = None"
    by simp
  show ?thesis
    using alias_same_values [OF src fr fc same d, of None]
      alias_same_values [OF src fr fc same t, of None]
    by simp
qed

section \<open>Resolve and fetch on a source; the sequential path\<close>






text \<open>
  Without an executor: when every evaluator succeeds on the chunks \<open>good\<close> and one fails
  on the next chunk, the generator yields the records of \<open>good\<close> in order, then raises
  the exception of that evaluator, once; the chunks after the failing one are never
  asked from the source.
\<close>

lemma sequential_first_failure:
  assumes good: "\<forall>g \<in> set good. \<exists>vs.
        calculate_each cs g [0..<length cs] (replicate (length cs) NoneV) = Inr vs"
    and bad: "calculate_each cs bad [0..<length cs] (replicate (length cs) NoneV) = Inl e"
    and state: "excinfos = None \<or> excinfos = Some []"
  shows "chunk_loop fin cs None (good @ bad # rest) excinfos results
       = Fetch # (if excinfos = None then [] else [Yield (fin results)])
         @ concat (map (\<lambda>g. [Fetch, Yield (fin (projr
             (calculate_each cs g [0..<length cs] (replicate (length cs) NoneV))))]) good)
         @ [Raise e]"
  using good state
proof (induction good arbitrary: excinfos results)
  case Nil
  from Nil.prems(2) show ?case
    by (auto simp: bad deferred_def)
next
  case (Cons g gs)
  from Cons.prems(1) obtain vs where
    vs: "calculate_each cs g [0..<length cs] (replicate (length cs) NoneV) = Inr vs"
    by auto
  have next_chunks: "chunk_loop fin cs None (gs @ bad # rest) (Some []) vs
      = Fetch # [Yield (fin vs)]
        @ concat (map (\<lambda>g. [Fetch, Yield (fin (projr
            (calculate_each cs g [0..<length cs] (replicate (length cs) NoneV))))]) gs)
        @ [Raise e]"
    using Cons.IH [of "Some []" vs] Cons.prems(1) by simp
  from Cons.prems(2) show ?case
    by (auto simp: vs next_chunks deferred_def)
qed

section \<open>Resolve and fetch on the chains that can be built\<close>








end
